theory Spec2Isabelle
  imports Main "HOL-Library.Sublist" "HOL-Library.Multiset"
begin

section \<open>Python strings\<close>

text \<open>
  A Python \<open>str\<close> is modelled as a \<open>string\<close>, one \<open>char\<close> per code point, so the
  model covers the texts whose code points are below 256. On these, \<open>str.lower\<close> and
  \<open>str.isspace\<close> are Python's in full: \<open>lower\<close> maps the letters \<open>A\<close> to \<open>Z\<close> and the
  thirty capital letters from \<open>U+00C0\<close> to \<open>U+00DE\<close> (the sign \<open>U+00D7\<close> is not one) to
  the code point 32 places up and leaves every other character as it is, one character
  for one; \<open>isspace\<close> holds of the twelve characters listed, \<open>U+0085\<close> and \<open>U+00A0\<close> among
  them. Texts with code points from 256 on are outside this development.
\<close>

definition ascii_uppercase :: string where
  "ascii_uppercase = ''ABCDEFGHIJKLMNOPQRSTUVWXYZ''"

definition ascii_lowercase :: string where
  "ascii_lowercase = ''abcdefghijklmnopqrstuvwxyz''"

definition latin1_uppercase :: string where
  "latin1_uppercase =
     [CHR 0xC0, CHR 0xC1, CHR 0xC2, CHR 0xC3, CHR 0xC4, CHR 0xC5,
      CHR 0xC6, CHR 0xC7, CHR 0xC8, CHR 0xC9, CHR 0xCA, CHR 0xCB,
      CHR 0xCC, CHR 0xCD, CHR 0xCE, CHR 0xCF, CHR 0xD0, CHR 0xD1,
      CHR 0xD2, CHR 0xD3, CHR 0xD4, CHR 0xD5, CHR 0xD6, CHR 0xD8,
      CHR 0xD9, CHR 0xDA, CHR 0xDB, CHR 0xDC, CHR 0xDD, CHR 0xDE]"

definition latin1_lowercase :: string where
  "latin1_lowercase =
     [CHR 0xE0, CHR 0xE1, CHR 0xE2, CHR 0xE3, CHR 0xE4, CHR 0xE5,
      CHR 0xE6, CHR 0xE7, CHR 0xE8, CHR 0xE9, CHR 0xEA, CHR 0xEB,
      CHR 0xEC, CHR 0xED, CHR 0xEE, CHR 0xEF, CHR 0xF0, CHR 0xF1,
      CHR 0xF2, CHR 0xF3, CHR 0xF4, CHR 0xF5, CHR 0xF6, CHR 0xF8,
      CHR 0xF9, CHR 0xFA, CHR 0xFB, CHR 0xFC, CHR 0xFD, CHR 0xFE]"

definition lower_char :: "char \<Rightarrow> char" where
  "lower_char c =
     (case map_of (zip ascii_uppercase ascii_lowercase) c of
        Some l \<Rightarrow> l
      | None \<Rightarrow>
          (case map_of (zip latin1_uppercase latin1_lowercase) c of
             Some l \<Rightarrow> l
           | None \<Rightarrow> c))"

definition lower :: "string \<Rightarrow> string" where
  "lower s = map lower_char s"


text \<open>\<open>s.startswith(p)\<close>, \<open>s.endswith(p)\<close>, and the operator \<open>sub in s\<close> on strings:
  \<open>sub\<close> starts at some position of \<open>s\<close>.\<close>

fun startswith :: "string \<Rightarrow> string \<Rightarrow> bool" where
  "startswith s [] = True"
| "startswith [] (p # ps) = False"
| "startswith (c # s) (p # ps) = (c = p \<and> startswith s ps)"

definition endswith :: "string \<Rightarrow> string \<Rightarrow> bool" where
  "endswith s p = startswith (rev s) (rev p)"

fun str_in :: "string \<Rightarrow> string \<Rightarrow> bool" where
  "str_in sub [] = (sub = [])"
| "str_in sub (c # s) = (startswith (c # s) sub \<or> str_in sub s)"

definition isspace :: "char \<Rightarrow> bool" where
  "isspace c =
     (c \<in> set [CHR 0x09, CHR 0x0A, CHR 0x0B, CHR 0x0C, CHR 0x0D,
               CHR 0x1C, CHR 0x1D, CHR 0x1E, CHR 0x1F, CHR '' '',
               CHR 0x85, CHR 0xA0])"

definition strip :: "string \<Rightarrow> string" where
  "strip s = rev (dropWhile isspace (rev (dropWhile isspace s)))"

text \<open>The specification's containment check, in its own words: the text, case-folded,
  contains the case-folded entry as a substring.\<close>

definition contains_ci :: "string \<Rightarrow> string \<Rightarrow> bool" where
  "contains_ci text entry = sublist (lower entry) (lower text)"


section \<open>The validator of \<open>posts/validators.py\<close>\<close>

text \<open>
  \<^verbatim>\<open>
  class BadLanguageValidator:
      def __init__(self, bad_words=None):
          if bad_words is None:
              self.bad_words = ["bad_word_1", "bad_word_2", "bad_word_3"]
          else:
              self.bad_words = bad_words

      def __call__(self, value):
          for bad_word in self.bad_words:
              if bad_word.lower() in value.lower():
                  raise ValidationError("The text contains bad language")
  \<close>
  The object is a record with the one attribute the class assigns; the record scheme's
  extension stands for whatever else an instance carries. Raising is the left summand
  of the result, returning \<open>None\<close> the right one. \<open>__call__\<close> gets \<open>self\<close> and hands it
  back, so that what a call does to the object is part of its result.
\<close>

record BadLanguageValidator =
  bad_words :: "string list"

datatype ValidationError = ValidationError string

definition init :: "string list option \<Rightarrow> BadLanguageValidator" where
  "init arg =
     (case arg of
        None \<Rightarrow> \<lparr>bad_words = [''bad_word_1'', ''bad_word_2'', ''bad_word_3'']\<rparr>
      | Some ws \<Rightarrow> \<lparr>bad_words = ws\<rparr>)"

text \<open>The \<open>for\<close> loop over \<open>self.bad_words\<close>.\<close>

fun for_bad_word :: "string list \<Rightarrow> string \<Rightarrow> ValidationError + unit" where
  "for_bad_word [] val = Inr ()"
| "for_bad_word (bad_word # rest) val =
     (if str_in (lower bad_word) (lower val)
      then Inl (ValidationError ''The text contains bad language'')
      else for_bad_word rest val)"

definition call ::
  "'a BadLanguageValidator_scheme \<Rightarrow> string
     \<Rightarrow> (ValidationError + unit) \<times> 'a BadLanguageValidator_scheme" where
  "call self val = (for_bad_word (bad_words self) val, self)"

text \<open>The specification's names for the two outcomes, and its contract
  \<open>validate(text, blacklist)\<close>: build the validator, call it on the text. A blacklist the
  caller does not supply is \<open>None\<close>.\<close>

abbreviation Accepted :: "ValidationError + unit" where
  "Accepted \<equiv> Inr ()"

abbreviation Rejected :: "string \<Rightarrow> ValidationError + unit" where
  "Rejected reason \<equiv> Inl (ValidationError reason)"

definition validate :: "string \<Rightarrow> string list option \<Rightarrow> ValidationError + unit" where
  "validate text blacklist = fst (call (init blacklist) text)"


section \<open>The search form of \<open>posts/forms.py\<close>\<close>

text \<open>
  \<^verbatim>\<open>
  class SearchForm(forms.Form):
      query = forms.CharField(label="", required=False, max_length=100,
                              widget=forms.TextInput(attrs={...}))
  \<close>
  The form is bound to the request's query parameters, a dictionary from names to
  values. Cleaning a \<open>CharField\<close> is Django's: an absent value is the empty string; a
  present one is stripped of surrounding whitespace (\<open>strip=True\<close> is the field's
  default); an empty result is rejected only by a required field and skips the
  validators; otherwise the length is checked against \<open>max_length\<close> and the value must
  hold no NUL character. A field that fails leaves no entry in \<open>cleaned_data\<close> and one
  in \<open>errors\<close>; the form is valid when \<open>errors\<close> is empty.
\<close>

datatype field_error = Required | Max_length | Null_characters_not_allowed

record CharField =
  required :: bool
  max_length :: nat

definition to_python :: "string option \<Rightarrow> string" where
  "to_python v = (case v of None \<Rightarrow> [] | Some s \<Rightarrow> strip s)"

definition run_validators :: "CharField \<Rightarrow> string \<Rightarrow> field_error list" where
  "run_validators field val =
     (if max_length field < length val then [Max_length] else [])
     @ (if CHR 0x00 \<in> set val then [Null_characters_not_allowed] else [])"

definition clean :: "CharField \<Rightarrow> string option \<Rightarrow> field_error list + string" where
  "clean field v =
     (let val = to_python v in
      if val = [] then (if required field then Inl [Required] else Inr val)
      else (case run_validators field val of
              [] \<Rightarrow> Inr val
            | e # es \<Rightarrow> Inl (e # es)))"

definition query_field :: CharField where
  "query_field = \<lparr>required = False, max_length = 100\<rparr>"

record SearchForm =
  data :: "string \<rightharpoonup> string"
  errors :: "(string \<times> field_error list) list"
  cleaned_data :: "string \<rightharpoonup> string"

definition SearchForm_new :: "(string \<rightharpoonup> string) \<Rightarrow> SearchForm" where
  "SearchForm_new d =
     (case clean query_field (d ''query'') of
        Inl es \<Rightarrow> \<lparr>data = d, errors = [(''query'', es)], cleaned_data = Map.empty\<rparr>
      | Inr val \<Rightarrow> \<lparr>data = d, errors = [], cleaned_data = [''query'' \<mapsto> val]\<rparr>)"

definition is_valid :: "SearchForm \<Rightarrow> bool" where
  "is_valid f = (errors f = [])"


section \<open>The lookup \<open>title__icontains\<close> on the database\<close>

text \<open>
  The project's settings are not part of the sources at hand; the database is taken to
  be SQLite, the backend of a new Django project. For \<open>title__icontains=q\<close> that backend
  sends \<^verbatim>\<open>title LIKE p ESCAPE '\'\<close> with the pattern \<open>p\<close> made of \<open>%\<close>, then \<open>q\<close> with a
  backslash put before each backslash, \<open>%\<close> and \<open>_\<close> of its own, then \<open>%\<close>; so \<open>q\<close> is
  matched as it is written. SQLite's \<open>LIKE\<close>
  \<^item> compares the letters \<open>A\<close> to \<open>Z\<close> without case and every other character exactly;
  \<^item> reads the title and the pattern up to their first NUL character, so that a query
    with a NUL character loses the closing \<open>%\<close> and asks for a title that ends with what
    precedes the NUL;
  \<^item> fails with \<open>OperationalError\<close> when it is evaluated on a row with a pattern of more
    than 50000 bytes in UTF-8, a code point from 128 on taking two bytes.
  The rows a view puts in its context are read when the template is rendered, which is
  part of the view's call.
\<close>

definition sqlite_lower_char :: "char \<Rightarrow> char" where
  "sqlite_lower_char c =
     (case map_of (zip ascii_uppercase ascii_lowercase) c of
        Some l \<Rightarrow> l
      | None \<Rightarrow> c)"

definition sqlite_lower :: "string \<Rightarrow> string" where
  "sqlite_lower s = map sqlite_lower_char s"

definition c_string :: "string \<Rightarrow> string" where
  "c_string s = takeWhile (\<lambda>c. c \<noteq> CHR 0x00) s"

definition prep_for_like_query :: "string \<Rightarrow> string" where
  "prep_for_like_query x =
     concat (map (\<lambda>c. if c \<in> set [CHR 0x5C, CHR ''%'', CHR ''_''] then [CHR 0x5C, c] else [c]) x)"

definition like_pattern :: "string \<Rightarrow> string" where
  "like_pattern q = CHR ''%'' # prep_for_like_query q @ [CHR ''%'']"

definition utf8_length :: "string \<Rightarrow> nat" where
  "utf8_length s = sum_list (map (\<lambda>c. if digit7 c then 2 else 1) s)"

definition SQLITE_MAX_LIKE_PATTERN_LENGTH :: nat where
  "SQLITE_MAX_LIKE_PATTERN_LENGTH = 50000"

definition icontains :: "string \<Rightarrow> string \<Rightarrow> bool" where
  "icontains field_value q =
     (let t = sqlite_lower (c_string field_value);
          p = sqlite_lower (c_string q)
      in if CHR 0x00 \<in> set q then endswith t p else str_in p t)"

datatype view_error = KeyError string | OperationalError string

definition filter_title_icontains ::
  "('r \<Rightarrow> string) \<Rightarrow> string \<Rightarrow> 'r list \<Rightarrow> view_error + 'r list" where
  "filter_title_icontains title_of q rows =
     (if rows \<noteq> [] \<and> SQLITE_MAX_LIKE_PATTERN_LENGTH < utf8_length (like_pattern q)
      then Inl (OperationalError ''LIKE or GLOB pattern too complex'')
      else Inr (filter (\<lambda>r. icontains (title_of r) q) rows))"


section \<open>The views\<close>

text \<open>
  A view is given the rows of its table in the order the database yields them, and
  hands them back with the context it renders, or with the error it raises; rendering
  the template is Django's and is left out. A request is its method (the field
  \<open>http_method\<close>, for \<open>request.method\<close>) and its query parameters; the scheme's
  extension is the rest of it. Subscripting \<open>cleaned_data\<close> with a missing key raises
  \<open>KeyError\<close>.
\<close>

record Post =
  pk :: nat
  title :: string
  content :: string
  author :: string
  created_at :: int
  language :: string

record request =
  http_method :: string
  GET :: "string \<rightharpoonup> string"

record dashboard_context =
  posts :: "Post list"
  form :: SearchForm

text \<open>
  \<^verbatim>\<open>
  def dashboard(request):
      form = SearchForm(request.GET)
      posts = Post.objects.all()
      if request.method == "GET":
          if form.is_valid():
              query = form.cleaned_data["query"]
              posts = posts.filter(title__icontains=query)
      context = {"posts": posts, "form": form}
      return render(request, 'posts/dashboard.html', context)
  \<close>
\<close>

definition dashboard ::
  "'a request_scheme \<Rightarrow> Post list \<Rightarrow> (view_error + dashboard_context) \<times> Post list" where
  "dashboard req db =
     (let f = SearchForm_new (GET req);
          all_posts = db
      in if http_method req = ''GET'' then
           if is_valid f then
             (case cleaned_data f ''query'' of
                None \<Rightarrow> (Inl (KeyError ''query''), db)
              | Some query \<Rightarrow>
                  (case filter_title_icontains title query all_posts of
                     Inl e \<Rightarrow> (Inl e, db)
                   | Inr ps \<Rightarrow> (Inr \<lparr>posts = ps, form = f\<rparr>, db)))
           else (Inr \<lparr>posts = all_posts, form = f\<rparr>, db)
         else (Inr \<lparr>posts = all_posts, form = f\<rparr>, db))"

text \<open>
  The model \<open>Post\<close> declares no ordering, so \<open>Post.objects.all()\<close> may yield the rows of
  the table in any order: the table is the multiset of its rows, and a run of the
  view sees some sequence of them.
\<close>

definition objects_all :: "Post multiset \<Rightarrow> Post list \<Rightarrow> bool" where
  "objects_all table rows = (mset rows = table)"

text \<open>
  The to-do list's view, \<open>todo_app/views.py\<close>. Its model \<open>Task\<close> is declared in a file
  that is not part of the sources at hand, so the row type and its \<open>title\<close> column are
  parameters.
  \<^verbatim>\<open>
  def index(request):
      title_filter = request.GET.get("title_filter", "")
      tasks = Task.objects.filter(title__icontains=title_filter)
      context = {"title_filter": title_filter, "tasks": tasks}
      return render(request, 'tasks/index.html', context)
  \<close>
\<close>

record 'task index_context =
  title_filter :: string
  tasks :: "'task list"

definition index ::
  "('task \<Rightarrow> string) \<Rightarrow> 'a request_scheme \<Rightarrow> 'task list
     \<Rightarrow> (view_error + 'task index_context) \<times> 'task list" where
  "index task_title req db =
     (let tf = (case GET req ''title_filter'' of None \<Rightarrow> [] | Some v \<Rightarrow> v)
      in case filter_title_icontains task_title tf db of
           Inl e \<Rightarrow> (Inl e, db)
         | Inr ts \<Rightarrow> (Inr \<lparr>title_filter = tf, tasks = ts\<rparr>, db))"

text \<open>
  The specification's contract \<open>filter(records, query)\<close>, as each view realises it: the
  records are the rows of the table, the query is the request parameter the view reads
  (absent when \<open>None\<close>), the request is a \<open>GET\<close>, and the result is the list the view puts
  in its context.
\<close>

definition search_request :: "string \<Rightarrow> string option \<Rightarrow> request" where
  "search_request name query =
     \<lparr>http_method = ''GET'',
      GET = (case query of None \<Rightarrow> Map.empty | Some q \<Rightarrow> [name \<mapsto> q])\<rparr>"

definition TitleSearchFilter :: "Post list \<Rightarrow> string option \<Rightarrow> view_error + Post list" where
  "TitleSearchFilter records query =
     map_sum id posts (fst (dashboard (search_request ''query'' query) records))"



section \<open>Example rows\<close>

text \<open>The two records of the specification's example, as rows of the posts table.\<close>

definition intro_to_go :: Post where
  "intro_to_go =
     \<lparr>pk = 1, title = ''Intro to Go'', content = ''Channels and goroutines'',
      author = ''ann'', created_at = 1726000000, language = ''Go''\<rparr>"

definition rust_basics :: Post where
  "rust_basics =
     \<lparr>pk = 2, title = ''Rust basics'', content = ''Ownership'',
      author = ''bob'', created_at = 1726000600, language = ''Rust''\<rparr>"


section \<open>Facts about strings\<close>

lemma startswith_prefix: "startswith s p = prefix p s"
  by (induction s p rule: startswith.induct) auto

lemma endswith_suffix: "endswith s p = suffix p s"
  by (simp add: endswith_def startswith_prefix suffix_to_prefix)

lemma str_in_sublist: "str_in sub s = sublist sub s"
  by (induction s) (simp_all add: startswith_prefix sublist_Cons_right)

lemma str_in_lower_contains_ci: "str_in (lower w) (lower t) = contains_ci t w"
  by (simp add: contains_ci_def str_in_sublist)

lemma contains_ci_empty: "contains_ci t []"
  by (simp add: contains_ci_def lower_def)

lemma contains_ci_in_empty: "contains_ci [] w \<longleftrightarrow> w = []"
  by (simp add: contains_ci_def lower_def)


lemma strip_empty: "strip [] = []"
  by (simp add: strip_def)


subsection \<open>The two case foldings\<close>



















lemma icontains_empty: "icontains t []"
  by (simp add: icontains_def c_string_def sqlite_lower_def str_in_sublist)

lemma utf8_length_prep: "utf8_length (prep_for_like_query q) \<le> 2 * length q"
  by (induction q) (auto simp add: utf8_length_def prep_for_like_query_def)

lemma utf8_length_like_pattern: "utf8_length (like_pattern q) \<le> 2 * length q + 2"
  using utf8_length_prep [of q] by (simp add: like_pattern_def utf8_length_def)

text \<open>A query of at most 100 characters never makes the pattern too long.\<close>

lemma filter_title_icontains_short:
  "length q \<le> 100 \<Longrightarrow>
     filter_title_icontains title_of q rows = Inr (filter (\<lambda>r. icontains (title_of r) q) rows)"
  using utf8_length_like_pattern [of q]
  by (simp add: filter_title_icontains_def SQLITE_MAX_LIKE_PATTERN_LENGTH_def)


section \<open>Facts about the validator\<close>

lemma for_bad_word_cases:
  "for_bad_word ws val =
     (if list_ex (\<lambda>w. contains_ci val w) ws
      then Rejected ''The text contains bad language'' else Accepted)"
  by (induction ws) (simp_all add: str_in_lower_contains_ci)

lemma validate_Some: "validate t (Some bl) = for_bad_word bl t"
  by (simp add: validate_def call_def init_def)

text \<open>Unfolding the case tables, to compute on given texts.\<close>

lemmas lower_unfold =
  contains_ci_def lower_def lower_char_def ascii_uppercase_def ascii_lowercase_def
  latin1_uppercase_def latin1_lowercase_def

text \<open>
  C1. For every text and every blacklist, \<open>validate\<close> returns
  \<open>Rejected "The text contains bad language"\<close> exactly when some blacklist entry is
  contained in the text as a case-insensitive substring, and \<open>Accepted\<close> otherwise.
\<close>

theorem validate_rejects_iff_contains:
  "(validate t (Some bl) = Rejected ''The text contains bad language''
      \<longleftrightarrow> (\<exists>w \<in> set bl. contains_ci t w))
   \<and> (validate t (Some bl) = Accepted \<longleftrightarrow> \<not> (\<exists>w \<in> set bl. contains_ci t w))"
  by (simp add: validate_Some for_bad_word_cases list_ex_iff)

theorem validate_rejects_iff_contains_witness:
  "validate ''Nothing BAD_Word_3 here'' (Some [''spam'', ''bad_WORD_3''])
     = Rejected ''The text contains bad language''
   \<and> contains_ci ''Nothing BAD_Word_3 here'' ''bad_WORD_3''
   \<and> validate ''Nothing here'' (Some [''spam'', ''bad_WORD_3'']) = Accepted
   \<and> validate [CHR 0xC9, CHR ''t'', CHR 0xC9] (Some [[CHR ''T'', CHR 0xE9]])
       = Rejected ''The text contains bad language''"
proof -
  have c: "contains_ci ''Nothing BAD_Word_3 here'' ''bad_WORD_3''"
    by (simp add: lower_unfold sublist_Cons_right)
  have n: "\<not> (\<exists>w \<in> set [''spam'', ''bad_WORD_3'']. contains_ci ''Nothing here'' w)"
    by (simp add: lower_unfold sublist_Cons_right)
  have l: "\<exists>w \<in> set [[CHR ''T'', CHR 0xE9]]. contains_ci [CHR 0xC9, CHR ''t'', CHR 0xC9] w"
    by (simp add: lower_unfold sublist_Cons_right)
  from c have "\<exists>w \<in> set [''spam'', ''bad_WORD_3'']. contains_ci ''Nothing BAD_Word_3 here'' w"
    by simp
  with c n l
    validate_rejects_iff_contains [of "''Nothing BAD_Word_3 here''" "[''spam'', ''bad_WORD_3'']"]
    validate_rejects_iff_contains [of "''Nothing here''" "[''spam'', ''bad_WORD_3'']"]
    validate_rejects_iff_contains [of "[CHR 0xC9, CHR ''t'', CHR 0xC9]" "[[CHR ''T'', CHR 0xE9]]"]
  show ?thesis by blast
qed

text \<open>
  C4, as the code has it. The empty text is accepted by every blacklist that does not
  hold the empty string, the built-in one among them, and the empty blacklist accepts
  every text.
\<close>

theorem validate_empty_cases:
  "([] \<notin> set bl \<longrightarrow> validate [] (Some bl) = Accepted)
   \<and> validate [] None = Accepted
   \<and> validate t (Some []) = Accepted"
  by (simp add: validate_Some for_bad_word_cases list_ex_iff contains_ci_in_empty
      validate_def call_def init_def)

theorem validate_empty_cases_witness:
  "[] \<notin> set [''spam'', ''bad_word_1'']
   \<and> validate [] (Some [''spam'', ''bad_word_1'']) = Accepted"
  using validate_empty_cases [of "[''spam'', ''bad_word_1'']"] by simp

text \<open>
  C4 as the specification states it, that the empty text is accepted whatever the
  blacklist, fails for the blacklist whose one entry is the empty string.
\<close>

theorem validate_empty_counterexample:
  "validate [] (Some [[]]) = Rejected ''The text contains bad language''"
  by (simp add: validate_def call_def init_def lower_def)

text \<open>
  C5. Without a blacklist from the caller the validator holds the three built-in
  placeholder words, and the specification's example text is rejected.
\<close>

theorem validate_default:
  "bad_words (init None) = [''bad_word_1'', ''bad_word_2'', ''bad_word_3'']
   \<and> card (set (bad_words (init None))) = 3
   \<and> validate t None = validate t (Some [''bad_word_1'', ''bad_word_2'', ''bad_word_3''])
   \<and> validate ''this has bad_word_2 inside'' None = Rejected ''The text contains bad language''"
  by (simp add: validate_def call_def init_def lower_unfold)

text \<open>
  C10. A blacklist that holds the empty string rejects every text, the empty one
  included.
\<close>

theorem validate_empty_entry:
  "[] \<in> set bl \<Longrightarrow> validate t (Some bl) = Rejected ''The text contains bad language''"
  using contains_ci_empty [of t]
  by (auto simp add: validate_Some for_bad_word_cases list_ex_iff)

theorem validate_empty_entry_witness:
  "[] \<in> set [''spam'', []]
   \<and> validate ''hello'' (Some [''spam'', []]) = Rejected ''The text contains bad language''
   \<and> validate [] (Some [''spam'', []]) = Rejected ''The text contains bad language''"
  using validate_empty_entry [of "[''spam'', []]" "''hello''"]
    validate_empty_entry [of "[''spam'', []]" "[]"]
  by simp


section \<open>Facts about the search form and the views\<close>

lemma run_validators_query:
  "run_validators query_field val = [] \<longleftrightarrow> length val \<le> 100 \<and> CHR 0x00 \<notin> set val"
  by (simp add: run_validators_def query_field_def)

lemma clean_query:
  "clean query_field v =
     (if run_validators query_field (to_python v) = [] \<or> to_python v = []
      then Inr (to_python v)
      else Inl (run_validators query_field (to_python v)))"
  by (simp add: clean_def Let_def query_field_def split: list.splits)

lemma is_valid_SearchForm:
  "is_valid (SearchForm_new d) \<longleftrightarrow>
     length (to_python (d ''query'')) \<le> 100 \<and> CHR 0x00 \<notin> set (to_python (d ''query''))"
  by (auto simp add: is_valid_def SearchForm_new_def clean_query run_validators_query)

lemma cleaned_data_SearchForm:
  "is_valid (SearchForm_new d) \<Longrightarrow>
     cleaned_data (SearchForm_new d) ''query'' = Some (to_python (d ''query''))"
  by (auto simp add: is_valid_def SearchForm_new_def clean_query split: if_splits)

lemma dashboard_eq:
  "dashboard req db =
     (Inr \<lparr>posts = (if http_method req = ''GET'' \<and> is_valid (SearchForm_new (GET req))
                    then filter (\<lambda>r. icontains (title r) (to_python (GET req ''query''))) db
                    else db),
           form = SearchForm_new (GET req)\<rparr>, db)"
  by (simp add: dashboard_def Let_def cleaned_data_SearchForm filter_title_icontains_short
      is_valid_SearchForm)

lemma TitleSearchFilter_eq:
  "TitleSearchFilter records query =
     Inr (if length (to_python query) \<le> 100 \<and> CHR 0x00 \<notin> set (to_python query)
          then filter (\<lambda>r. icontains (title r) (to_python query)) records
          else records)"
  by (cases query)
    (auto simp add: TitleSearchFilter_def dashboard_eq search_request_def is_valid_SearchForm)









text \<open>
  C3. The empty query is the identity: the dashboard returns all records, unchanged
  and in their order.
\<close>

theorem filter_empty_query_identity:
  "TitleSearchFilter records (Some []) = Inr records"
  by (simp add: TitleSearchFilter_eq to_python_def strip_empty icontains_empty)

text \<open>
  C6. The dashboard returns a context for every request and every table, never an
  error. When the query is absent, or malformed so that the form is not valid, the
  context holds the whole table. The form is not valid exactly when the query is
  present and, once stripped, is longer than 100 characters or holds a NUL character.
\<close>

theorem dashboard_never_fails:
  "\<exists>ctx. dashboard req db = (Inr ctx, db)
     \<and> (GET req ''query'' = None \<or> \<not> is_valid (SearchForm_new (GET req)) \<longrightarrow> posts ctx = db)
     \<and> (\<not> is_valid (SearchForm_new (GET req)) \<longleftrightarrow>
          (\<exists>q. GET req ''query'' = Some q
             \<and> (100 < length (strip q) \<or> CHR 0x00 \<in> set (strip q))))"
proof (cases "GET req ''query''")
  case None
  then show ?thesis
    by (simp add: dashboard_eq is_valid_SearchForm to_python_def icontains_empty)
next
  case (Some q)
  then show ?thesis
    by (auto simp add: dashboard_eq is_valid_SearchForm to_python_def)
qed

theorem dashboard_never_fails_witness:
  "\<not> is_valid (SearchForm_new [''query'' \<mapsto> [CHR ''g'', CHR 0x00, CHR ''o'']])
   \<and> (\<exists>ctx. dashboard \<lparr>http_method = ''GET'', GET = [''query'' \<mapsto> [CHR ''g'', CHR 0x00, CHR ''o'']]\<rparr>
               [intro_to_go, rust_basics] = (Inr ctx, [intro_to_go, rust_basics])
          \<and> posts ctx = [intro_to_go, rust_basics])"
proof -
  have v: "\<not> is_valid (SearchForm_new [''query'' \<mapsto> [CHR ''g'', CHR 0x00, CHR ''o'']])"
    by (simp add: is_valid_SearchForm to_python_def strip_def isspace_def)
  with dashboard_never_fails
    [of "\<lparr>http_method = ''GET'', GET = [''query'' \<mapsto> [CHR ''g'', CHR 0x00, CHR ''o'']]\<rparr>"
        "[intro_to_go, rust_basics]"]
  show ?thesis by auto
qed

text \<open>
  C7. Filtering twice with the same query gives what filtering once gives, for every
  query, present or absent, and more generally for every request.
\<close>

theorem filter_idempotent:
  "(\<exists>rs. TitleSearchFilter records query = Inr rs \<and> TitleSearchFilter rs query = Inr rs)
   \<and> (\<exists>ctx. fst (dashboard req db) = Inr ctx \<and> fst (dashboard req (posts ctx)) = Inr ctx)"
  by (simp add: TitleSearchFilter_eq dashboard_eq)

text \<open>
  C8. Neither operation changes what it is given: a call hands the validator back as
  it was, each view hands the table back as it was, and the rows a view returns are
  rows of the table, whole and in the table's order.
\<close>

theorem validate_and_filter_read_only:
  "snd (call self val) = self
   \<and> snd (dashboard req db) = db
   \<and> (\<exists>ctx. fst (dashboard req db) = Inr ctx \<and> subseq (posts ctx) db)
   \<and> snd (index task_title req' task_rows) = task_rows
   \<and> (\<forall>ictx. fst (index task_title req' task_rows) = Inr ictx \<longrightarrow> subseq (tasks ictx) task_rows)"
  by (auto simp add: call_def dashboard_eq index_def Let_def filter_title_icontains_def
      split: sum.splits if_splits)

text \<open>Unfolding the database's lookup, to compute on given rows.\<close>

lemmas sqlite_unfold =
  icontains_def c_string_def sqlite_lower_def sqlite_lower_char_def ascii_uppercase_def
  ascii_lowercase_def endswith_def utf8_length_def like_pattern_def prep_for_like_query_def
  SQLITE_MAX_LIKE_PATTERN_LENGTH_def

theorem validate_and_filter_read_only_witness:
  "fst (index title \<lparr>http_method = ''GET'', GET = [''title_filter'' \<mapsto> ''go'']\<rparr>
          [intro_to_go, rust_basics])
     = Inr \<lparr>title_filter = ''go'', tasks = [intro_to_go]\<rparr>
   \<and> subseq [intro_to_go] [intro_to_go, rust_basics]"
proof -
  have e: "fst (index title \<lparr>http_method = ''GET'', GET = [''title_filter'' \<mapsto> ''go'']\<rparr>
                  [intro_to_go, rust_basics])
             = Inr \<lparr>title_filter = ''go'', tasks = [intro_to_go]\<rparr>"
    by (simp add: index_def filter_title_icontains_def sqlite_unfold
        intro_to_go_def rust_basics_def)
  from validate_and_filter_read_only
    [where task_title = title
       and req' = "\<lparr>http_method = ''GET'', GET = [''title_filter'' \<mapsto> ''go'']\<rparr>"
       and task_rows = "[intro_to_go, rust_basics]"]
  have "\<forall>ictx. fst (index title \<lparr>http_method = ''GET'', GET = [''title_filter'' \<mapsto> ''go'']\<rparr>
                        [intro_to_go, rust_basics]) = Inr ictx
               \<longrightarrow> subseq (tasks ictx) [intro_to_go, rust_basics]"
    by blast
  with e have "subseq (tasks \<lparr>title_filter = ''go'', tasks = [intro_to_go]\<rparr>)
                 [intro_to_go, rust_basics]"
    by blast
  with e show ?thesis by simp
qed

text \<open>
  C9. Equal inputs give equal outputs. The verdict on a text depends on the blacklist
  as a set only: two validators whose lists hold the same words, in whatever order and
  however often, and whatever else the objects carry, give the same verdict. Two runs
  of the dashboard on the same table, with the same method and the same \<open>query\<close>
  parameter, return the same records, each run in the order in which the database
  yielded the rows to it; when both runs were given the same sequence of rows, they
  return the same sequence.
\<close>

theorem validate_and_filter_deterministic:
  "(set (bad_words self1) = set (bad_words self2) \<longrightarrow>
      fst (call self1 val) = fst (call self2 val))
   \<and> (objects_all table rows1 \<and> objects_all table rows2
        \<and> http_method r1 = http_method r2 \<and> GET r1 ''query'' = GET r2 ''query'' \<longrightarrow>
        (\<exists>c1 c2. fst (dashboard r1 rows1) = Inr c1 \<and> fst (dashboard r2 rows2) = Inr c2
           \<and> mset (posts c1) = mset (posts c2)
           \<and> subseq (posts c1) rows1 \<and> subseq (posts c2) rows2
           \<and> (rows1 = rows2 \<longrightarrow> posts c1 = posts c2)))"
  by (auto simp add: call_def for_bad_word_cases list_ex_iff dashboard_eq is_valid_SearchForm
      objects_all_def)


theorem validate_and_filter_deterministic_witness:
  "set (bad_words \<lparr>bad_words = [''spam'', ''eggs'']\<rparr>)
     = set (bad_words \<lparr>bad_words = [''eggs'', ''spam'', ''eggs''], \<dots> = True\<rparr>)
   \<and> fst (call \<lparr>bad_words = [''spam'', ''eggs'']\<rparr> ''Green Eggs'')
       = fst (call \<lparr>bad_words = [''eggs'', ''spam'', ''eggs''], \<dots> = True\<rparr> ''Green Eggs'')
   \<and> objects_all {#intro_to_go, rust_basics#} [intro_to_go, rust_basics]
   \<and> objects_all {#intro_to_go, rust_basics#} [rust_basics, intro_to_go]
   \<and> (\<exists>c1 c2.
         fst (dashboard \<lparr>http_method = ''GET'', GET = [''query'' \<mapsto> ''t'']\<rparr>
                [intro_to_go, rust_basics]) = Inr c1
       \<and> fst (dashboard \<lparr>http_method = ''GET'', GET = [''page'' \<mapsto> ''2'', ''query'' \<mapsto> ''t'']\<rparr>
                [rust_basics, intro_to_go]) = Inr c2
       \<and> mset (posts c1) = mset (posts c2)
       \<and> subseq (posts c1) [intro_to_go, rust_basics]
       \<and> subseq (posts c2) [rust_basics, intro_to_go])"
proof -
  have b: "set (bad_words \<lparr>bad_words = [''spam'', ''eggs'']\<rparr>)
             = set (bad_words \<lparr>bad_words = [''eggs'', ''spam'', ''eggs''], \<dots> = True\<rparr>)"
    by auto
  have o: "objects_all {#intro_to_go, rust_basics#} [intro_to_go, rust_basics]
           \<and> objects_all {#intro_to_go, rust_basics#} [rust_basics, intro_to_go]"
    by (simp add: objects_all_def)
  have g: "http_method \<lparr>http_method = ''GET'', GET = [''query'' \<mapsto> ''t'']\<rparr>
             = http_method \<lparr>http_method = ''GET'', GET = [''page'' \<mapsto> ''2'', ''query'' \<mapsto> ''t'']\<rparr>
           \<and> GET \<lparr>http_method = ''GET'', GET = [''query'' \<mapsto> ''t'']\<rparr> ''query''
             = GET \<lparr>http_method = ''GET'', GET = [''page'' \<mapsto> ''2'', ''query'' \<mapsto> ''t'']\<rparr> ''query''"
    by simp
  note d = validate_and_filter_deterministic
    [where ?self1.0 = "\<lparr>bad_words = [''spam'', ''eggs'']\<rparr>"
       and ?self2.0 = "\<lparr>bad_words = [''eggs'', ''spam'', ''eggs''], \<dots> = True\<rparr>"
       and val = "''Green Eggs''"
       and table = "{#intro_to_go, rust_basics#}"
       and ?rows1.0 = "[intro_to_go, rust_basics]"
       and ?rows2.0 = "[rust_basics, intro_to_go]"
       and ?r1.0 = "\<lparr>http_method = ''GET'', GET = [''query'' \<mapsto> ''t'']\<rparr>"
       and ?r2.0 = "\<lparr>http_method = ''GET'', GET = [''page'' \<mapsto> ''2'', ''query'' \<mapsto> ''t'']\<rparr>"]
  from d [THEN conjunct1] b
  have v: "fst (call \<lparr>bad_words = [''spam'', ''eggs'']\<rparr> ''Green Eggs'')
       = fst (call \<lparr>bad_words = [''eggs'', ''spam'', ''eggs''], \<dots> = True\<rparr> ''Green Eggs'')"
    by (rule mp)
  from d [THEN conjunct2] o g
  have "\<exists>c1 c2.
         fst (dashboard \<lparr>http_method = ''GET'', GET = [''query'' \<mapsto> ''t'']\<rparr>
                [intro_to_go, rust_basics]) = Inr c1
       \<and> fst (dashboard \<lparr>http_method = ''GET'', GET = [''page'' \<mapsto> ''2'', ''query'' \<mapsto> ''t'']\<rparr>
                [rust_basics, intro_to_go]) = Inr c2
       \<and> mset (posts c1) = mset (posts c2)
       \<and> subseq (posts c1) [intro_to_go, rust_basics]
       \<and> subseq (posts c2) [rust_basics, intro_to_go]"
    by blast
  with b v o show ?thesis by blast
qed

end
